theory Spec2Isabelle
  imports Complex_Main "HOL-Library.Sublist"
begin

section \<open>Python values held by a settings tree\<close>

text \<open>
  A settings tree is what \<^verbatim>\<open>yaml.safe_load\<close> returns: \<^verbatim>\<open>None\<close>, booleans, integers,
  floats, strings, lists and dictionaries. Dictionaries keep their insertion order, which
  \<^verbatim>\<open>merge_dicts\<close> and \<^verbatim>\<open>get_cmake_args\<close> observe, so a dictionary is an association list;
  the keys of the settings document are strings. A float is observed through equality
  only: a finite float is the rational it denotes, the two infinities and the
  not-a-number value are constructors of their own.
\<close>

datatype pyfloat = NaN | PosInf | NegInf | Finite rat

datatype val =
    VNone
  | VBool bool
  | VInt int
  | VFloat pyfloat
  | VStr string
  | VList "val list"
  | VDict "(string \<times> val) list"

type_synonym dict = "(string \<times> val) list"

text \<open>The exceptions that the modelled functions raise, each with its message.\<close>

datatype exn =
    Exception string
  | RuntimeError string
  | AssertionError string
  | NameError string
  | KeyError string
  | TypeError string
  | AttributeError string
  | UnboundLocalError string
  | OSError string

text \<open>\<^verbatim>\<open>isinstance(v, dict)\<close>\<close>

fun is_dict :: "val \<Rightarrow> bool" where
  "is_dict (VDict d) = True"
| "is_dict v = False"

text \<open>The dictionary inside a value that \<^verbatim>\<open>isinstance\<close> has found to be one.\<close>

fun the_dict :: "val \<Rightarrow> dict" where
  "the_dict (VDict d) = d"
| "the_dict v = []"

text \<open>
  Python's \<^verbatim>\<open>==\<close> on these values. Booleans, integers and floats compare by numeric value
  (\<^verbatim>\<open>True == 1 == 1.0\<close>), not-a-number differs from everything including itself, lists
  compare element by element, dictionaries compare as mappings whatever their order.
  The comparison is the one of two distinct objects: inside a list or a dictionary,
  CPython takes an element that is the very same object as equal without comparing it,
  which differs from this function only for a not-a-number float held in a container.
\<close>

fun num_of :: "val \<Rightarrow> pyfloat option" where
  "num_of (VBool b) = Some (Finite (if b then 1 else 0))"
| "num_of (VInt i) = Some (Finite (of_int i))"
| "num_of (VFloat f) = Some f"
| "num_of v = None"

definition num_eq :: "pyfloat \<Rightarrow> val \<Rightarrow> bool" where
  "num_eq f y = (case num_of y of None \<Rightarrow> False | Some g \<Rightarrow> f \<noteq> NaN \<and> f = g)"


section \<open>The settings store: \<^verbatim>\<open>merge_dicts\<close> and \<^verbatim>\<open>YAMLSettings.merge\<close>\<close>

text \<open>\<^verbatim>\<open>sep.join(xs)\<close>\<close>

fun join :: "string \<Rightarrow> string list \<Rightarrow> string" where
  "join sep [] = []"
| "join sep [x] = x"
| "join sep (x # y # ys) = x @ sep @ join sep (y # ys)"

text \<open>\<^verbatim>\<open>a[key] = v\<close>: an existing key keeps its position, a new key goes last.\<close>

fun set_item :: "('k \<times> 'v) list \<Rightarrow> 'k \<Rightarrow> 'v \<Rightarrow> ('k \<times> 'v) list" where
  "set_item [] key v = [(key, v)]"
| "set_item ((k, w) # a) key v =
     (if k = key then (k, v) # a else (k, w) # set_item a key v)"




section \<open>Key paths of a settings tree\<close>

text \<open>
  The value a tree holds under a key path: \<^verbatim>\<open>t[k1][k2]...[kn]\<close>, or nothing when a key is
  missing or the path runs through a value that is not a dictionary. A leaf is a value
  that is not a dictionary.
\<close>

fun lookup_path :: "val \<Rightarrow> string list \<Rightarrow> val option" where
  "lookup_path v [] = Some v"
| "lookup_path v (k # ks) =
     (if is_dict v then
        (case map_of (the_dict v) k of None \<Rightarrow> None | Some w \<Rightarrow> lookup_path w ks)
      else None)"






section \<open>The workspace on disk\<close>

text \<open>
  A \<^verbatim>\<open>Path\<close> is the list of its segments. The file system is a tree: a file with its
  text, or a directory with its entries. Failures of the file system are \<^verbatim>\<open>OSError\<close>,
  whichever subclass Python raises.
\<close>

type_synonym path = "string list"

datatype node = File string | Dir "(string \<times> node) list"

fun resolve :: "node \<Rightarrow> path \<Rightarrow> node option" where
  "resolve n [] = Some n"
| "resolve n (x # p) =
     (case n of
        File c \<Rightarrow> None
      | Dir es \<Rightarrow> (case map_of es x of None \<Rightarrow> None | Some child \<Rightarrow> resolve child p))"

text \<open>\<^verbatim>\<open>p.is_dir()\<close> and \<^verbatim>\<open>p.is_file()\<close>\<close>

definition is_dir :: "node \<Rightarrow> path \<Rightarrow> bool" where
  "is_dir t p = (case resolve t p of Some (Dir es) \<Rightarrow> True | _ \<Rightarrow> False)"

definition is_file :: "node \<Rightarrow> path \<Rightarrow> bool" where
  "is_file t p = (case resolve t p of Some (File c) \<Rightarrow> True | _ \<Rightarrow> False)"

text \<open>
  The tree with a node set at a path whose parent is a directory of the tree; nothing
  when the parent is missing or is a file.
\<close>

fun put :: "node \<Rightarrow> path \<Rightarrow> node \<Rightarrow> node option" where
  "put n [] new = Some new"
| "put n (x # p) new =
     (case n of
        File c \<Rightarrow> None
      | Dir es \<Rightarrow>
          (if p = [] then Some (Dir (set_item es x new))
           else (case map_of es x of
                   None \<Rightarrow> None
                 | Some child \<Rightarrow>
                     (case put child p new of
                        None \<Rightarrow> None
                      | Some child' \<Rightarrow> Some (Dir (set_item es x child'))))))"

text \<open>\<^verbatim>\<open>p.mkdir(exist_ok=True)\<close>\<close>

definition mkdir :: "node \<Rightarrow> path \<Rightarrow> exn + node" where
  "mkdir t p =
     (case resolve t p of
        Some (Dir es) \<Rightarrow> Inr t
      | Some (File c) \<Rightarrow> Inl (OSError ''FileExistsError'')
      | None \<Rightarrow>
          (case put t p (Dir []) of
             None \<Rightarrow> Inl (OSError ''FileNotFoundError'')
           | Some t' \<Rightarrow> Inr t'))"

text \<open>\<^verbatim>\<open>p.mkdir(parents=True, exist_ok=True)\<close>: the missing ancestors first, then \<^verbatim>\<open>p\<close>.\<close>

fun mkdirs :: "node \<Rightarrow> path list \<Rightarrow> exn + node" where
  "mkdirs t [] = Inr t"
| "mkdirs t (p # ps) =
     (case mkdir t p of Inl e \<Rightarrow> Inl e | Inr t' \<Rightarrow> mkdirs t' ps)"

definition mkdir_parents :: "node \<Rightarrow> path \<Rightarrow> exn + node" where
  "mkdir_parents t p = mkdirs t (tl (prefixes p))"

text \<open>\<^verbatim>\<open>open(p, "w")\<close> followed by \<^verbatim>\<open>write(text)\<close>, and \<^verbatim>\<open>open(p, "r")\<close> followed by reading.\<close>

definition write_text :: "node \<Rightarrow> path \<Rightarrow> string \<Rightarrow> exn + node" where
  "write_text t p text =
     (case resolve t p of
        Some (Dir es) \<Rightarrow> Inl (OSError ''IsADirectoryError'')
      | _ \<Rightarrow>
          (case put t p (File text) of
             None \<Rightarrow> Inl (OSError ''FileNotFoundError'')
           | Some t' \<Rightarrow> Inr t'))"

definition read_text :: "node \<Rightarrow> path \<Rightarrow> exn + string" where
  "read_text t p =
     (case resolve t p of
        Some (File c) \<Rightarrow> Inr c
      | Some (Dir es) \<Rightarrow> Inl (OSError ''IsADirectoryError'')
      | None \<Rightarrow> Inl (OSError ''FileNotFoundError''))"

text \<open>
  Modelled from the spec: \<^verbatim>\<open>utils.copy(src, dst)\<close> is not among the sources. The spec
  says of it that it copies the file into the inputs directory.
\<close>

definition utils_copy :: "node \<Rightarrow> path \<Rightarrow> path \<Rightarrow> exn + node" where
  "utils_copy t src dst =
     (case read_text t src of
        Inl e \<Rightarrow> Inl e
      | Inr c \<Rightarrow> write_text t dst c)"

text \<open>\<^verbatim>\<open>str(p)\<close> of a path.\<close>

definition str_path :: "path \<Rightarrow> string" where
  "str_path p = join ''/'' p"

section \<open>External tools, the logger and the state of a run\<close>

text \<open>
  An argument of an external command is a string or a path. Each run of an external
  process is recorded, in order, with what the source passes to it:
  \<^verbatim>\<open>utils.cmake(src, *args, use_ninja=..., cwd=...)\<close>, \<^verbatim>\<open>utils.make(cwd=...)\<close>,
  \<^verbatim>\<open>utils.python(*args, env=...)\<close> with the \<^verbatim>\<open>PYTHONPATH\<close> it sets,
  \<^verbatim>\<open>utils.exec_getout(exe, arg)\<close>, \<^verbatim>\<open>git.Repo.clone_from(url, dest, no_checkout=...)\<close> and
  \<^verbatim>\<open>repo.git.checkout(ref)\<close>.
\<close>

datatype arg = Str string | Pth path

datatype call =
    Cmake path "string list" bool path
  | Make path
  | Python "arg list" path
  | ExecGetout path path
  | GitClone "string option" path bool
  | GitCheckout path string

text \<open>
  What lies outside the sources is a parameter: the YAML library, and what an external
  process does when it runs on a file system, which is either the failure it raises or
  the output it prints and the file system it leaves.
\<close>

record tools =
  yaml_safe_load :: "string \<Rightarrow> exn + val"
  yaml_dump :: "val \<Rightarrow> string"
  run :: "call \<Rightarrow> node \<Rightarrow> exn + string \<times> node"

text \<open>
  The state of a run outside the manager object: the file system, the external
  processes run so far, the records sent to the logger with their level, and the log
  file and the log levels that have been set.
\<close>

record world =
  fs :: node
  calls :: "call list"
  records :: "(string \<times> string) list"
  log_file :: "path option"
  log_level :: "(val \<times> val) option"

text \<open>
  A step of the program runs on a state and either raises or returns a value; in both
  cases it leaves a state behind. \<^verbatim>\<open>and_then\<close> is sequencing: an exception ends the
  sequence. \<^verbatim>\<open>get_state\<close> reads the state, for a step that depends on it.
\<close>

definition and_then ::
  "('s \<Rightarrow> (exn + 'a) \<times> 's) \<Rightarrow> ('a \<Rightarrow> 's \<Rightarrow> (exn + 'b) \<times> 's) \<Rightarrow> 's \<Rightarrow> (exn + 'b) \<times> 's" where
  "and_then m k s = (case m s of (Inl e, s') \<Rightarrow> (Inl e, s') | (Inr x, s') \<Rightarrow> k x s')"

definition returns :: "'a \<Rightarrow> 's \<Rightarrow> (exn + 'a) \<times> 's" where
  "returns x s = (Inr x, s)"

definition raise :: "exn \<Rightarrow> 's \<Rightarrow> (exn + 'a) \<times> 's" where
  "raise e s = (Inl e, s)"

definition get_state :: "'s \<Rightarrow> (exn + 's) \<times> 's" where
  "get_state s = (Inr s, s)"

definition of_result :: "exn + 'a \<Rightarrow> 's \<Rightarrow> (exn + 'a) \<times> 's" where
  "of_result r s = (r, s)"

text \<open>A step on the file system, and the run of an external process.\<close>

definition fs_step :: "(node \<Rightarrow> exn + node) \<Rightarrow> world \<Rightarrow> (exn + unit) \<times> world" where
  "fs_step f w = (case f (fs w) of Inl e \<Rightarrow> (Inl e, w) | Inr t \<Rightarrow> (Inr (), w\<lparr>fs := t\<rparr>))"

definition run_tool :: "tools \<Rightarrow> call \<Rightarrow> world \<Rightarrow> (exn + string) \<times> world" where
  "run_tool ext c w =
     (case run ext c (fs w) of
        Inl e \<Rightarrow> (Inl e, w\<lparr>calls := calls w @ [c]\<rparr>)
      | Inr (out, t) \<Rightarrow> (Inr out, w\<lparr>fs := t, calls := calls w @ [c]\<rparr>))"

text \<open>
  Modelled from the spec: the module \<^verbatim>\<open>seal5.logging\<close> is not among the sources. The
  spec names it the logging sink, to which the stages send their messages, and says
  that the log file and the levels are attached to it. A record is kept with its level;
  \<^verbatim>\<open>set_log_file\<close> and \<^verbatim>\<open>set_log_level\<close> keep what they are given.
\<close>

definition logger :: "string \<Rightarrow> string \<Rightarrow> world \<Rightarrow> (exn + unit) \<times> world" where
  "logger level msg w = (Inr (), w\<lparr>records := records w @ [(level, msg)]\<rparr>)"

definition set_log_file :: "path \<Rightarrow> world \<Rightarrow> (exn + unit) \<times> world" where
  "set_log_file p w = (Inr (), w\<lparr>log_file := Some p\<rparr>)"

definition set_log_level :: "val \<Rightarrow> val \<Rightarrow> world \<Rightarrow> (exn + unit) \<times> world" where
  "set_log_level console_level file_level w =
     (Inr (), w\<lparr>log_level := Some (console_level, file_level)\<rparr>)"

text \<open>
  \<^verbatim>\<open>flow.py\<close> calls \<^verbatim>\<open>ask_user\<close>, \<^verbatim>\<open>logging.error\<close> and \<^verbatim>\<open>sys.exit\<close>, and binds none of
  the names \<^verbatim>\<open>ask_user\<close>, \<^verbatim>\<open>logging\<close> and \<^verbatim>\<open>sys\<close>: it neither defines nor imports them.
  Evaluating such a name raises \<^verbatim>\<open>NameError\<close>.
\<close>

definition unbound :: "string \<Rightarrow> 's \<Rightarrow> (exn + 'a) \<times> 's" where
  "unbound nm = raise (NameError nm)"

definition ask_user :: "string \<Rightarrow> bool \<Rightarrow> bool \<Rightarrow> 's \<Rightarrow> (exn + bool) \<times> 's" where
  "ask_user prompt default_answer interactive = unbound ''ask_user''"

definition logging_error :: "string \<Rightarrow> 's \<Rightarrow> (exn + unit) \<times> 's" where
  "logging_error msg = unbound ''logging''"

definition sys_exit :: "nat \<Rightarrow> 's \<Rightarrow> (exn + unit) \<times> 's" where
  "sys_exit status = unbound ''sys''"

section \<open>Reading a settings tree\<close>

text \<open>\<^verbatim>\<open>v[key]\<close> with a string key.\<close>

fun subscript :: "val \<Rightarrow> string \<Rightarrow> exn + val" where
  "subscript (VDict d) key = (case map_of d key of None \<Rightarrow> Inl (KeyError key) | Some v \<Rightarrow> Inr v)"
| "subscript v key = Inl (TypeError key)"

text \<open>\<^verbatim>\<open>v.get(key, None)\<close>: only a dictionary has the method.\<close>

fun dict_get :: "val \<Rightarrow> string \<Rightarrow> exn + val" where
  "dict_get (VDict d) key = (case map_of d key of None \<Rightarrow> Inr VNone | Some v \<Rightarrow> Inr v)"
| "dict_get v key = Inl (AttributeError ''get'')"

text \<open>
  \<^verbatim>\<open>for x in v\<close>: the elements of a list, the characters of a string, the keys of a
  dictionary; nothing else iterates.
\<close>

fun py_iter :: "val \<Rightarrow> exn + val list" where
  "py_iter (VList xs) = Inr xs"
| "py_iter (VStr s) = Inr (map (\<lambda>c. VStr [c]) s)"
| "py_iter (VDict d) = Inr (map (\<lambda>(k, v). VStr k) d)"
| "py_iter v = Inl (TypeError ''not iterable'')"

text \<open>\<^verbatim>\<open>str(n)\<close> of an integer, in decimal.\<close>

fun str_nat :: "nat \<Rightarrow> string" where
  "str_nat n =
     (if n < 10 then [''0123456789'' ! n]
      else str_nat (n div 10) @ [''0123456789'' ! (n mod 10)])"

declare str_nat.simps [simp del]

definition str_int :: "int \<Rightarrow> string" where
  "str_int i = (if i < 0 then ''-'' @ str_nat (nat (- i)) else str_nat (nat i))"

section \<open>The default settings\<close>

text \<open>The module-level dictionary \<^verbatim>\<open>DEFAULT_SETTINGS\<close>, as the module defines it.\<close>

definition release_options :: "bool \<Rightarrow> string \<Rightarrow> val" where
  "release_options assertions build_type =
     VDict [(''options'', VDict
       [(''CMAKE_BUILD_TYPE'', VStr build_type),
        (''LLVM_BUILD_TOOLS'', VBool True),
        (''LLVM_ENABLE_ASSERTIONS'', VBool assertions),
        (''LLVM_OPTIMIZED_TABLEGEN'', VBool True),
        (''LLVM_ENABLE_PROJECTS'', VList [VStr ''clang'', VStr ''lld'']),
        (''LLVM_TARGETS_TO_BUILD'', VList [VStr ''X86'', VStr ''RISCV''])])]"

definition DEFAULT_SETTINGS :: dict where
  "DEFAULT_SETTINGS =
     [(''logging'', VDict
         [(''console'', VDict [(''level'', VStr ''INFO'')]),
          (''file'', VDict [(''level'', VStr ''DEBUG''), (''rotate'', VBool False),
                           (''limit'', VInt 1000)])]),
      (''patch'', VDict [(''author'', VStr ''Seal5''), (''mail'', VStr ''example@example.com'')]),
      (''transform'', VDict [(''passes'', VStr ''*'')]),
      (''test'', VDict [(''paths'', VList [VStr ''MC/RISCV'', VStr ''CodeGen/RISCV''])]),
      (''llvm'', VDict
         [(''state'', VDict [(''version'', VStr ''auto''), (''base_commit'', VStr ''unknown'')]),
          (''configs'', VDict
             [(''release'', release_options False ''Release''),
              (''release_assertions'', release_options True ''Release''),
              (''debug'', release_options True ''Debug'')])]),
      (''inputs'', VList []),
      (''extensions'', VDict []),
      (''groups'', VDict [(''all'', VStr ''*'')])]"

section \<open>Building and testing\<close>

text \<open>
  \<^verbatim>\<open>get_cmake_args(cfg)\<close>: one \<^verbatim>\<open>-D<key>=<value>\<close> for each item, in order. A boolean is
  \<^verbatim>\<open>ON\<close> or \<^verbatim>\<open>OFF\<close>, a list is joined with \<^verbatim>\<open>;\<close> (which raises \<^verbatim>\<open>TypeError\<close> on an element
  that is not a string), an integer or a string is itself, and anything else fails the
  assertion.
\<close>

fun str_items :: "val list \<Rightarrow> exn + string list" where
  "str_items [] = Inr []"
| "str_items (VStr s # xs) = (case str_items xs of Inl e \<Rightarrow> Inl e | Inr ss \<Rightarrow> Inr (s # ss))"
| "str_items (v # xs) = Inl (TypeError ''sequence item: expected str instance'')"

fun cmake_value :: "val \<Rightarrow> exn + string" where
  "cmake_value (VBool b) = Inr (if b then ''ON'' else ''OFF'')"
| "cmake_value (VList xs) = (case str_items xs of Inl e \<Rightarrow> Inl e | Inr ss \<Rightarrow> Inr (join '';'' ss))"
| "cmake_value (VInt i) = Inr (str_int i)"
| "cmake_value (VStr s) = Inr s"
| "cmake_value v = Inl (AssertionError ''Unsupported cmake cfg'')"

fun get_cmake_args :: "dict \<Rightarrow> exn + string list" where
  "get_cmake_args [] = Inr []"
| "get_cmake_args ((key, v) # cfg) =
     (case cmake_value v of
        Inl e \<Rightarrow> Inl e
      | Inr s \<Rightarrow>
          (case get_cmake_args cfg of
             Inl e \<Rightarrow> Inl e
           | Inr ret \<Rightarrow> Inr ((''-D'' @ key @ ''='' @ s) # ret)))"

text \<open>
  \<^verbatim>\<open>build_llvm(src, dest, debug, use_ninja, verbose, cmake_options)\<close>, with its parameters
  in the order of the source. It never reads \<^verbatim>\<open>debug\<close>, which holds whatever value the
  caller passes.
\<close>

definition build_llvm ::
  "tools \<Rightarrow> path \<Rightarrow> path \<Rightarrow> val \<Rightarrow> bool \<Rightarrow> bool \<Rightarrow> dict \<Rightarrow> world \<Rightarrow> (exn + unit) \<times> world" where
  "build_llvm ext src dest debug use_ninja verbose cmake_options =
     and_then (of_result (get_cmake_args cmake_options)) (\<lambda>cmake_args.
     and_then (fs_step (\<lambda>t. mkdir t dest)) (\<lambda>_.
     and_then (run_tool ext (Cmake (src @ [''llvm'']) cmake_args use_ninja dest)) (\<lambda>_.
     and_then (run_tool ext (Make dest)) (\<lambda>_.
     returns ()))))"

text \<open>
  The matches of the pattern \<^verbatim>\<open>FAIL: LLVM :: (.*) \(\<close> that \<^verbatim>\<open>findall\<close> returns. The
  group is greedy and does not cross a line feed: at a position where the prefix
  stands, the group is the longest text without a line feed after which a blank and an
  opening parenthesis stand. The search goes on after the end of a match.
\<close>

fun group_match :: "string \<Rightarrow> (string \<times> string) option" where
  "group_match [] = None"
| "group_match (c # cs) =
     (case (if c = CHR 0x0A then None else group_match cs) of
        Some (g, rest) \<Rightarrow> Some (c # g, rest)
      | None \<Rightarrow> (if prefix '' ('' (c # cs) then Some ([], drop 2 (c # cs)) else None))"

fun findall_from :: "nat \<Rightarrow> string \<Rightarrow> string list" where
  "findall_from skip [] = []"
| "findall_from (Suc skip) (c # cs) = findall_from skip cs"
| "findall_from 0 (c # cs) =
     (if prefix ''FAIL: LLVM :: '' (c # cs) then
        (case group_match (drop (length ''FAIL: LLVM :: '') (c # cs)) of
           Some (g, rest) \<Rightarrow> g # findall_from (length ''FAIL: LLVM :: '' + length g + 1) cs
         | None \<Rightarrow> findall_from 0 cs)
      else findall_from 0 cs)"

definition findall_failing :: "string \<Rightarrow> string list" where
  "findall_failing out = findall_from 0 out"

text \<open>
  \<^verbatim>\<open>test_llvm(base, build_dir, test_paths, verbose)\<close>: the test runner on each path, in
  order, its exit code ignored, and the failing tests of each output appended. A path
  segment that is not a string makes \<^verbatim>\<open>base / test_path\<close> raise \<^verbatim>\<open>TypeError\<close>.
\<close>

fun test_paths_loop ::
  "tools \<Rightarrow> path \<Rightarrow> path \<Rightarrow> val list \<Rightarrow> string list \<Rightarrow> world \<Rightarrow> (exn + string list) \<times> world" where
  "test_paths_loop ext base lit_exe [] failing_tests = returns failing_tests"
| "test_paths_loop ext base lit_exe (VStr test_path # rest) failing_tests =
     and_then (run_tool ext (ExecGetout lit_exe (base @ [test_path]))) (\<lambda>out.
     test_paths_loop ext base lit_exe rest (failing_tests @ findall_failing out))"
| "test_paths_loop ext base lit_exe (v # rest) failing_tests =
     raise (TypeError ''unsupported operand type(s) for /'')"

definition test_llvm ::
  "tools \<Rightarrow> path \<Rightarrow> path \<Rightarrow> val \<Rightarrow> bool \<Rightarrow> world \<Rightarrow> (exn + string list) \<times> world" where
  "test_llvm ext base build_dir test_paths verbose =
     and_then (of_result (py_iter test_paths)) (\<lambda>paths.
     test_paths_loop ext base (build_dir @ [''bin'', ''llvm-lit'']) paths [])"

section \<open>The workspace manager \<^verbatim>\<open>Seal5Flow\<close>\<close>

datatype Seal5State = UNKNOWN | UNINITIALIZED | INITIALIZED

text \<open>
  The fields of the manager object. \<^verbatim>\<open>settings\<close> is the \<^verbatim>\<open>data\<close> of the settings object,
  or nothing while \<^verbatim>\<open>self.settings\<close> is \<^verbatim>\<open>None\<close>.
\<close>

record flow =
  directory :: path
  name :: string
  state :: Seal5State
  settings :: "val option"

text \<open>A method runs on the manager object and the world.\<close>

definition on_world ::
  "(world \<Rightarrow> (exn + 'a) \<times> world) \<Rightarrow> flow \<times> world \<Rightarrow> (exn + 'a) \<times> flow \<times> world" where
  "on_world m s = (case m (snd s) of (r, w) \<Rightarrow> (r, fst s, w))"

definition set_settings :: "val option \<Rightarrow> flow \<times> world \<Rightarrow> (exn + unit) \<times> flow \<times> world" where
  "set_settings d s = (Inr (), (fst s)\<lparr>settings := d\<rparr>, snd s)"

text \<open>The path properties of the manager.\<close>

definition meta_dir :: "flow \<Rightarrow> path" where "meta_dir f = directory f @ [''.seal5'']"
definition settings_file :: "flow \<Rightarrow> path" where "settings_file f = meta_dir f @ [''settings.yml'']"
definition deps_dir :: "flow \<Rightarrow> path" where "deps_dir f = meta_dir f @ [''deps'']"
definition build_dir :: "flow \<Rightarrow> path" where "build_dir f = meta_dir f @ [''build'']"
definition logs_dir :: "flow \<Rightarrow> path" where "logs_dir f = meta_dir f @ [''logs'']"
definition models_dir :: "flow \<Rightarrow> path" where "models_dir f = meta_dir f @ [''models'']"
definition inputs_dir :: "flow \<Rightarrow> path" where "inputs_dir f = meta_dir f @ [''inputs'']"
definition log_file_path :: "flow \<Rightarrow> path" where "log_file_path f = logs_dir f @ [''seal5.log'']"

text \<open>
  \<^verbatim>\<open>handle_directory(directory)\<close>. The argument is \<^verbatim>\<open>None\<close>, a string or a \<^verbatim>\<open>Path\<close>. The
  assertion on \<^verbatim>\<open>None\<close> asserts a class, which is true; \<^verbatim>\<open>Path(None)\<close> raises. The local
  \<^verbatim>\<open>path\<close> is assigned only when the argument is not a \<^verbatim>\<open>Path\<close>. The path of a string is
  the path with that one segment.
\<close>

datatype directory_arg = NoDirectory | DirectoryStr string | DirectoryPath path

fun handle_directory :: "directory_arg \<Rightarrow> exn + path" where
  "handle_directory NoDirectory = Inl (TypeError ''expected str, bytes or os.PathLike object'')"
| "handle_directory (DirectoryStr s) = Inr [s]"
| "handle_directory (DirectoryPath p) = Inl (UnboundLocalError ''path'')"

text \<open>
  The reading of the logging levels,
  \<^verbatim>\<open>settings.logging.console["level"]\<close> and \<^verbatim>\<open>settings.logging.file["level"]\<close>,
  followed by \<^verbatim>\<open>set_log_level\<close>.
\<close>

definition set_levels_from :: "val \<Rightarrow> world \<Rightarrow> (exn + unit) \<times> world" where
  "set_levels_from data =
     and_then (of_result (subscript data ''logging'')) (\<lambda>logging.
     and_then (of_result (subscript logging ''console'')) (\<lambda>console.
     and_then (of_result (subscript console ''level'')) (\<lambda>console_level.
     and_then (of_result (subscript data ''logging'')) (\<lambda>logging'.
     and_then (of_result (subscript logging' ''file'')) (\<lambda>file.
     and_then (of_result (subscript file ''level'')) (\<lambda>file_level.
     set_log_level console_level file_level))))))"

text \<open>\<^verbatim>\<open>from_yaml_file(path)\<close> and \<^verbatim>\<open>to_yaml_file(path)\<close>; \<^verbatim>\<open>validate\<close> returns \<^verbatim>\<open>True\<close>.\<close>

definition from_yaml_file :: "tools \<Rightarrow> path \<Rightarrow> world \<Rightarrow> (exn + val) \<times> world" where
  "from_yaml_file ext p w =
     (case read_text (fs w) p of
        Inl e \<Rightarrow> (Inl e, w)
      | Inr text \<Rightarrow> (yaml_safe_load ext text, w))"

definition to_yaml_file :: "tools \<Rightarrow> val \<Rightarrow> path \<Rightarrow> world \<Rightarrow> (exn + unit) \<times> world" where
  "to_yaml_file ext data p = fs_step (\<lambda>t. write_text t p (yaml_dump ext data))"

text \<open>\<^verbatim>\<open>Seal5Flow.check\<close> does nothing.\<close>

definition check :: "flow \<times> world \<Rightarrow> (exn + unit) \<times> flow \<times> world" where
  "check = returns ()"

text \<open>
  \<^verbatim>\<open>Seal5Flow.__init__(directory, name)\<close>: the state is set to \<^verbatim>\<open>UNKNOWN\<close>, \<^verbatim>\<open>check\<close> is
  called, the settings are loaded when the settings file is there, and the logging is
  attached when the logs directory is there. No object comes out of a constructor that
  raises.
\<close>

definition load_settings :: "tools \<Rightarrow> flow \<times> world \<Rightarrow> (exn + unit) \<times> flow \<times> world" where
  "load_settings ext =
     and_then get_state (\<lambda>s.
       if is_file (fs (snd s)) (settings_file (fst s))
       then and_then (on_world (from_yaml_file ext (settings_file (fst s))))
              (\<lambda>data. set_settings (Some data))
       else returns ())"

definition attach_logging :: "flow \<times> world \<Rightarrow> (exn + unit) \<times> flow \<times> world" where
  "attach_logging =
     and_then get_state (\<lambda>s.
       if is_dir (fs (snd s)) (logs_dir (fst s))
       then and_then (on_world (set_log_file (log_file_path (fst s))))
              (\<lambda>_. case settings (fst s) of
                      None \<Rightarrow> returns ()
                    | Some data \<Rightarrow> on_world (set_levels_from data))
       else returns ())"

definition Seal5Flow_init ::
  "tools \<Rightarrow> directory_arg \<Rightarrow> string \<Rightarrow> world \<Rightarrow> (exn + flow) \<times> world" where
  "Seal5Flow_init ext dir nm w =
     (case handle_directory dir of
        Inl e \<Rightarrow> (Inl e, w)
      | Inr p \<Rightarrow>
          (case and_then check (\<lambda>_.
                and_then (set_settings None) (\<lambda>_.
                and_then (load_settings ext) (\<lambda>_.
                attach_logging)))
                (\<lparr>directory = p, name = nm, state = UNKNOWN, settings = None\<rparr>, w) of
             (Inl e, f, w') \<Rightarrow> (Inl e, w')
           | (Inr u, f, w') \<Rightarrow> (Inr f, w')))"

text \<open>
  \<^verbatim>\<open>create_seal5_directories(path, directories)\<close> and
  \<^verbatim>\<open>clone_llvm_repo(dest, clone_url, ref)\<close>
\<close>

fun mkdir_each :: "path \<Rightarrow> string list \<Rightarrow> world \<Rightarrow> (exn + unit) \<times> world" where
  "mkdir_each p [] = returns ()"
| "mkdir_each p (d # ds) =
     and_then (fs_step (\<lambda>t. mkdir_parents t (p @ [d]))) (\<lambda>_. mkdir_each p ds)"

definition create_seal5_directories :: "path \<Rightarrow> string list \<Rightarrow> world \<Rightarrow> (exn + unit) \<times> world" where
  "create_seal5_directories p directories =
     and_then (logger ''DEBUG'' ''Creating Seal5 directories'') (\<lambda>_.
     (\<lambda>w. if \<not> is_dir (fs w) p then raise (RuntimeError (''Not a diretory: '' @ str_path p)) w
           else mkdir_each p directories w))"

definition clone_llvm_repo ::
  "tools \<Rightarrow> path \<Rightarrow> string option \<Rightarrow> string option \<Rightarrow> world \<Rightarrow> (exn + unit) \<times> world" where
  "clone_llvm_repo ext dest clone_url ref =
     and_then (logger ''DEBUG'' ''Cloning LLVM repository: %s'') (\<lambda>_.
     and_then (run_tool ext (GitClone clone_url dest (ref \<noteq> None))) (\<lambda>_.
     (case ref of
        None \<Rightarrow> returns ()
      | Some r \<Rightarrow>
          (if r = [] then returns ()
           else and_then (logger ''DEBUG'' ''Checking out branch: %s'') (\<lambda>_.
                and_then (run_tool ext (GitCheckout dest r)) (\<lambda>_. returns ()))))))"

text \<open>
  \<^verbatim>\<open>Seal5Flow.initialize(interactive, clone, clone_url, clone_ref, force, verbose)\<close>.
  In \<^verbatim>\<open>clone is False and not ask_user(...)\<close> the call is evaluated only when the first
  operand is true; the same holds of \<^verbatim>\<open>force\<close>.
\<close>

definition refuse_or_go ::
  "bool \<Rightarrow> string \<Rightarrow> bool \<Rightarrow> string \<Rightarrow> flow \<times> world \<Rightarrow> (exn + unit) \<times> flow \<times> world" where
  "refuse_or_go flag prompt interactive msg =
     (if \<not> flag then
        and_then (ask_user prompt False interactive) (\<lambda>answer.
          if \<not> answer then and_then (logging_error msg) (\<lambda>_. sys_exit 1)
          else returns ())
      else returns ())"

definition ensure_directory ::
  "tools \<Rightarrow> bool \<Rightarrow> bool \<Rightarrow> string option \<Rightarrow> string option \<Rightarrow>
   flow \<times> world \<Rightarrow> (exn + unit) \<times> flow \<times> world" where
  "ensure_directory ext interactive clone clone_url clone_ref =
     and_then get_state (\<lambda>s.
       if \<not> is_dir (fs (snd s)) (directory (fst s)) then
         and_then
           (refuse_or_go clone ''Clone LLVM repository?'' interactive
              ''Target directory does not exist! Aborting...'')
           (\<lambda>_. on_world (clone_llvm_repo ext (directory (fst s)) clone_url clone_ref))
       else returns ())"

definition guard_meta_dir ::
  "bool \<Rightarrow> bool \<Rightarrow> flow \<times> world \<Rightarrow> (exn + unit) \<times> flow \<times> world" where
  "guard_meta_dir interactive force =
     and_then get_state (\<lambda>s.
       if is_dir (fs (snd s)) (meta_dir (fst s)) then
         refuse_or_go force ''Overwrite existing .seal5 diretcory?'' interactive
           (''Directory '' @ str_path (meta_dir (fst s)) @ '' already exists! Aborting...'')
       else returns ())"

text \<open>
  What \<^verbatim>\<open>initialize\<close> does once the two checks have passed: the directories, the default
  settings in memory and on disk, the logging.
\<close>

definition create_workspace :: "tools \<Rightarrow> flow \<times> world \<Rightarrow> (exn + unit) \<times> flow \<times> world" where
  "create_workspace ext =
     and_then get_state (\<lambda>s.
     and_then (on_world (fs_step (\<lambda>t. mkdir t (meta_dir (fst s))))) (\<lambda>_.
     and_then (on_world (create_seal5_directories (meta_dir (fst s))
         [''deps'', ''models'', ''logs'', ''build'', ''install'', ''temp'', ''inputs'', ''gen'']))
       (\<lambda>_.
     and_then (set_settings (Some (VDict DEFAULT_SETTINGS))) (\<lambda>_.
     and_then (on_world (to_yaml_file ext (VDict DEFAULT_SETTINGS) (settings_file (fst s))))
       (\<lambda>_.
     and_then (on_world (set_log_file (log_file_path (fst s)))) (\<lambda>_.
     and_then (on_world (set_levels_from (VDict DEFAULT_SETTINGS))) (\<lambda>_.
     on_world (logger ''INFO'' ''Completed initialization of Seal5''))))))))"

definition initialize ::
  "tools \<Rightarrow> bool \<Rightarrow> bool \<Rightarrow> string option \<Rightarrow> string option \<Rightarrow> bool \<Rightarrow> bool \<Rightarrow>
   flow \<times> world \<Rightarrow> (exn + unit) \<times> flow \<times> world" where
  "initialize ext interactive clone clone_url clone_ref force verbose =
     and_then (on_world (logger ''INFO'' ''Initializing Seal5'')) (\<lambda>_.
     and_then (ensure_directory ext interactive clone clone_url clone_ref) (\<lambda>_.
     and_then (guard_meta_dir interactive force) (\<lambda>_.
     create_workspace ext)))"

section \<open>The stages\<close>

text \<open>
  \<^verbatim>\<open>self.settings.data\<close>, which raises \<^verbatim>\<open>AttributeError\<close> while \<^verbatim>\<open>self.settings\<close> is
  \<^verbatim>\<open>None\<close>.
\<close>

definition settings_data :: "flow \<times> world \<Rightarrow> (exn + val) \<times> flow \<times> world" where
  "settings_data =
     and_then get_state (\<lambda>s.
       case settings (fst s) of
         None \<Rightarrow> raise (AttributeError ''NoneType object has no attribute'')
       | Some data \<Rightarrow> returns data)"

text \<open>
  \<^verbatim>\<open>Seal5Flow.parse_coredsl(file, out_dir, verbose)\<close>: the parser of M2-ISA-R as a Python
  module, with \<^verbatim>\<open>PYTHONPATH\<close> set to its checkout in the dependency directory.
\<close>

definition parse_coredsl ::
  "tools \<Rightarrow> path \<Rightarrow> path \<Rightarrow> bool \<Rightarrow> flow \<times> world \<Rightarrow> (exn + unit) \<times> flow \<times> world" where
  "parse_coredsl ext file out_dir verbose =
     and_then get_state (\<lambda>s.
     and_then
       (on_world (run_tool ext
          (Python [Str ''-m'', Str ''m2isar.frontends.coredsl2_seal5.parser'',
                   Pth file, Str ''-o'', Pth out_dir]
                  (deps_dir (fst s) @ [''M2-ISA-R'']))))
       (\<lambda>_. returns ()))"

text \<open>
  \<^verbatim>\<open>self.settings.data["inputs"].append(filename)\<close>: the list under \<^verbatim>\<open>inputs\<close> grows in
  place; anything but a list has no \<^verbatim>\<open>append\<close>.
\<close>

definition append_input :: "string \<Rightarrow> flow \<times> world \<Rightarrow> (exn + unit) \<times> flow \<times> world" where
  "append_input filename =
     and_then settings_data (\<lambda>data.
     and_then (of_result (subscript data ''inputs'')) (\<lambda>inputs.
       (case inputs of
          VList xs \<Rightarrow>
            set_settings (Some (VDict (set_item (the_dict data) ''inputs''
                                         (VList (xs @ [VStr filename])))))
        | _ \<Rightarrow> raise (AttributeError ''append''))))"

text \<open>
  \<^verbatim>\<open>Seal5Flow.load_cdsl(file, verbose, overwrite)\<close>. \<^verbatim>\<open>file.name\<close> is the last segment of
  the path, the empty string for the empty path.
\<close>

definition path_name :: "path \<Rightarrow> string" where
  "path_name p = (if p = [] then [] else last p)"

definition load_cdsl ::
  "tools \<Rightarrow> path \<Rightarrow> bool \<Rightarrow> bool \<Rightarrow> flow \<times> world \<Rightarrow> (exn + unit) \<times> flow \<times> world" where
  "load_cdsl ext file verbose overwrite =
     and_then get_state (\<lambda>s.
       if \<not> is_file (fs (snd s)) file then raise (AssertionError ''TODO'')
       else if is_file (fs (snd s)) (inputs_dir (fst s) @ [path_name file]) \<and> \<not> overwrite
       then raise (RuntimeError (''File '' @ path_name file @ '' already loaded!''))
       else
         and_then (on_world (fs_step (\<lambda>t. utils_copy t file
                                             (inputs_dir (fst s) @ [path_name file])))) (\<lambda>_.
         and_then (append_input (path_name file)) (\<lambda>_.
         and_then (parse_coredsl ext file (models_dir (fst s)) verbose) (\<lambda>_.
         and_then settings_data (\<lambda>data.
         on_world (to_yaml_file ext data (settings_file (fst s))))))))"

text \<open>
  \<^verbatim>\<open>Seal5Flow.build(config, verbose)\<close>. The call of \<^verbatim>\<open>build_llvm\<close> passes three positional
  arguments: the third parameter of \<^verbatim>\<open>build_llvm\<close> is \<^verbatim>\<open>debug\<close>, and \<^verbatim>\<open>use_ninja\<close>,
  \<^verbatim>\<open>verbose\<close> and \<^verbatim>\<open>cmake_options\<close> take their defaults \<^verbatim>\<open>False\<close>, \<^verbatim>\<open>False\<close> and \<^verbatim>\<open>{}\<close>.
\<close>

definition build ::
  "tools \<Rightarrow> string \<Rightarrow> bool \<Rightarrow> flow \<times> world \<Rightarrow> (exn + unit) \<times> flow \<times> world" where
  "build ext config verbose =
     and_then get_state (\<lambda>s.
     and_then (on_world (logger ''INFO'' ''Building Seal5 LLVM'')) (\<lambda>_.
     and_then settings_data (\<lambda>data.
     and_then (of_result (subscript data ''llvm'')) (\<lambda>llvm.
     and_then (of_result (subscript llvm ''configs'')) (\<lambda>configs.
     and_then (of_result (dict_get configs config)) (\<lambda>llvm_config.
       if llvm_config = VNone then raise (AssertionError (''Invalid llvm config: '' @ config))
       else
         and_then (of_result (subscript llvm_config ''options'')) (\<lambda>cmake_options.
         and_then (on_world (build_llvm ext (directory (fst s)) (build_dir (fst s) @ [config])
                               cmake_options False False [])) (\<lambda>_.
         on_world (logger ''INFO'' ''Completed build of Seal5 LLVM'')))))))))"

text \<open>
  \<^verbatim>\<open>Seal5Flow.test(debug, verbose, ignore_error)\<close>. The failing tests go to the logger, in
  one record at level \<^verbatim>\<open>ERROR\<close>; the exception carries a fixed message.
\<close>

definition test ::
  "tools \<Rightarrow> bool \<Rightarrow> bool \<Rightarrow> bool \<Rightarrow> flow \<times> world \<Rightarrow> (exn + unit) \<times> flow \<times> world" where
  "test ext debug verbose ignore_error =
     and_then get_state (\<lambda>s.
     and_then (on_world (logger ''INFO'' ''Testing Seal5 LLVM'')) (\<lambda>_.
     and_then settings_data (\<lambda>data.
     and_then (of_result (subscript data ''test'')) (\<lambda>test_settings.
     and_then (of_result (subscript test_settings ''paths'')) (\<lambda>test_paths.
     and_then (on_world (test_llvm ext (directory (fst s) @ [''llvm'', ''test''])
                           (build_dir (fst s) @ [if debug then ''debug'' else ''release''])
                           test_paths verbose)) (\<lambda>failing_tests.
     and_then
       (if length failing_tests > 0 then
          and_then (on_world (logger ''ERROR''
                      (str_nat (length failing_tests) @ '' tests failed: ''
                       @ join '', '' failing_tests))) (\<lambda>_.
            if \<not> ignore_error then raise (RuntimeError ''Tests failed!'') else returns ())
        else returns ()) (\<lambda>_.
     on_world (logger ''INFO'' ''Completed test of Seal5 LLVM''))))))))"

section \<open>The command \<^verbatim>\<open>init\<close>\<close>

text \<open>
  The arguments that \<^verbatim>\<open>handle\<close> of \<^verbatim>\<open>cli/init.py\<close> reads, and the value of the
  environment variable \<^verbatim>\<open>SEAL5_HOME\<close>. Without a directory and without the variable an
  error is logged and the manager is built on \<^verbatim>\<open>None\<close>.
\<close>

record init_args =
  arg_dir :: "string option"
  arg_name :: string
  non_interactive :: bool
  arg_clone :: bool
  arg_clone_url :: "string option"
  arg_clone_ref :: "string option"
  arg_force :: bool
  arg_verbose :: bool

definition handle :: "tools \<Rightarrow> string option \<Rightarrow> init_args \<Rightarrow> world \<Rightarrow> (exn + unit) \<times> world" where
  "handle ext seal5_home args w =
     (case (case arg_dir args of
              Some d \<Rightarrow> (Inr (DirectoryStr d), w)
            | None \<Rightarrow>
                (case seal5_home of
                   Some home_dir \<Rightarrow> (Inr (DirectoryStr home_dir), w)
                 | None \<Rightarrow>
                     and_then (logger ''ERROR'' ''Seal5_HOME Env var not specified !!!'')
                       (\<lambda>_. returns NoDirectory) w)) of
        (Inl e, w1) \<Rightarrow> (Inl e, w1)
      | (Inr dir, w1) \<Rightarrow>
          (case Seal5Flow_init ext dir (arg_name args) w1 of
             (Inl e, w2) \<Rightarrow> (Inl e, w2)
           | (Inr seal5_flow, w2) \<Rightarrow>
               (case initialize ext (\<not> non_interactive args) (arg_clone args)
                       (arg_clone_url args) (arg_clone_ref args) (arg_force args)
                       (arg_verbose args) (seal5_flow, w2) of
                  (r, f, w3) \<Rightarrow> (r, w3))))"

text \<open>
  Modelled from the spec: the dispatcher that calls \<^verbatim>\<open>handle\<close> is not among the sources.
  The spec says that a fatal error terminates the invoking command with a nonzero exit
  status. An exception that leaves \<^verbatim>\<open>handle\<close> is such an error.
\<close>

definition exit_status :: "exn + unit \<Rightarrow> nat" where
  "exit_status r = (case r of Inl e \<Rightarrow> 1 | Inr u \<Rightarrow> 0)"

section \<open>What a step leaves unchanged\<close>

text \<open>
  A step keeps an observation of the state when the state it leaves shows the same
  observation as the state it started from, whether it returns or raises.
\<close>

definition keeps :: "('s \<Rightarrow> 'o) \<Rightarrow> ('s \<Rightarrow> (exn + 'a) \<times> 's) \<Rightarrow> bool" where
  "keeps obs m = (\<forall>s. obs (snd (m s)) = obs s)"

section \<open>Instances for the examples\<close>

text \<open>
  External tools that succeed, print nothing and leave the file system as it is, with a
  YAML library that loads the empty mapping and dumps the empty text; and the world of a
  fresh process on a given file system.
\<close>

definition quiet_tools :: tools where
  "quiet_tools =
     \<lparr>yaml_safe_load = (\<lambda>text. Inr (VDict [])),
      yaml_dump = (\<lambda>v. []),
      run = (\<lambda>c t. Inr ([], t))\<rparr>"

definition world_of :: "node \<Rightarrow> world" where
  "world_of t = \<lparr>fs = t, calls = [], records = [], log_file = None, log_level = None\<rparr>"

text \<open>
  A manager on the directory \<^verbatim>\<open>ws\<close> as the constructor leaves it when there is no
  settings file, and the directory \<^verbatim>\<open>ws\<close> with the metadata directory as \<^verbatim>\<open>initialize\<close>
  lays it out, around a given settings file and given inputs, and with given other
  entries.
\<close>

definition ws_flow :: flow where
  "ws_flow = \<lparr>directory = [''ws''], name = ''default'', state = UNKNOWN, settings = None\<rparr>"

definition ws_tree :: "string \<Rightarrow> (string \<times> node) list \<Rightarrow> (string \<times> node) list \<Rightarrow> node" where
  "ws_tree settings_text inputs others =
     Dir [(''ws'', Dir ((''.seal5'', Dir
       [(''deps'', Dir []), (''models'', Dir []), (''logs'', Dir []), (''build'', Dir []),
        (''install'', Dir []), (''temp'', Dir []), (''inputs'', Dir inputs), (''gen'', Dir []),
        (''settings.yml'', File settings_text)]) # others))]"

text \<open>
  A test runner that reports two failing tests on the path \<^verbatim>\<open>MC/RISCV\<close> and none
  elsewhere; the other tools are quiet.
\<close>

definition lit_tools :: tools where
  "lit_tools =
     quiet_tools\<lparr>run := (\<lambda>c t.
       case c of
         ExecGetout exe p \<Rightarrow>
           (if last p = ''MC/RISCV''
            then Inr (''PASS: LLVM :: ok.ll (1 of 3)'' @ [CHR 0x0A]
                      @ ''FAIL: LLVM :: MC/RISCV/a.s (2 of 3)'' @ [CHR 0x0A]
                      @ ''FAIL: LLVM :: MC/RISCV/b.s (3 of 3)'' @ [CHR 0x0A], t)
            else Inr (''PASS: LLVM :: c.ll (1 of 1)'' @ [CHR 0x0A], t))
       | _ \<Rightarrow> Inr ([], t))\<rparr>"

section \<open>What one call of \<^verbatim>\<open>merge_dicts\<close> does to each key\<close>

lemma map_of_set_item: "map_of (set_item a key v) k = (if k = key then Some v else map_of a k)"
  by (induction a key v rule: set_item.induct) auto







section \<open>Conflicts at any depth\<close>









section \<open>The result of a merge that raises nothing\<close>

lemma num_eq_not_dict: "num_eq f y \<Longrightarrow> \<not> is_dict y"
  by (cases y) (auto simp: num_eq_def)








section \<open>Key paths and leaves, by lookup\<close>



section \<open>A merge keeps dictionaries well formed\<close>






section \<open>Merging the same tree again\<close>








section \<open>The manager never changes its state field\<close>

lemma keepsD: "keeps obs m \<Longrightarrow> m s = (r, s') \<Longrightarrow> obs s' = obs s"
  by (auto simp: keeps_def dest: spec[of _ s])

lemma keeps_and_then:
  assumes m: "keeps obs m" and k: "\<And>x. keeps obs (k x)"
  shows "keeps obs (and_then m k)"
  unfolding keeps_def
proof
  fix s
  obtain r s1 where ms: "m s = (r, s1)" by (cases "m s")
  from keepsD[OF m ms] have o1: "obs s1 = obs s" .
  show "obs (snd (and_then m k s)) = obs s"
  proof (cases r)
    case (Inl e)
    with ms o1 show ?thesis by (simp add: and_then_def)
  next
    case (Inr x)
    obtain r2 s2 where ks: "k x s1 = (r2, s2)" by (cases "k x s1")
    from keepsD[OF k ks] o1 ms Inr ks show ?thesis by (simp add: and_then_def)
  qed
qed

lemma keeps_returns: "keeps obs (returns x)"
  by (simp add: keeps_def returns_def)

lemma keeps_raise: "keeps obs (raise e)"
  by (simp add: keeps_def raise_def)

lemma keeps_of_result: "keeps obs (of_result x)"
  by (simp add: keeps_def of_result_def)

lemma keeps_get_state: "keeps obs get_state"
  by (simp add: keeps_def get_state_def)

lemma keeps_unbound: "keeps obs (unbound nm)"
  by (simp add: keeps_def unbound_def raise_def)

lemma keeps_if: "keeps obs m1 \<Longrightarrow> keeps obs m2 \<Longrightarrow> keeps obs (if c then m1 else m2)"
  by simp

lemma keeps_flow_on_world: "keeps (\<lambda>s. g (fst s)) (on_world m)"
  by (auto simp: keeps_def on_world_def split: prod.splits)

lemma keeps_state_set_settings: "keeps (\<lambda>s. state (fst s)) (set_settings d)"
  by (simp add: keeps_def set_settings_def)

lemma keeps_ask_user: "keeps obs (ask_user p d i)"
  by (simp add: ask_user_def keeps_unbound)

lemma keeps_logging_error: "keeps obs (logging_error msg)"
  by (simp add: logging_error_def keeps_unbound)

lemma keeps_sys_exit: "keeps obs (sys_exit n)"
  by (simp add: sys_exit_def keeps_unbound)

lemmas keeps_basic =
  keeps_and_then keeps_returns keeps_raise keeps_of_result keeps_get_state keeps_unbound
  keeps_if keeps_ask_user keeps_logging_error keeps_sys_exit

lemma keeps_settings_data: "keeps obs settings_data"
  unfolding settings_data_def by (intro keeps_basic) (auto split: option.splits intro: keeps_basic)

lemma keeps_check: "keeps obs check"
  by (simp add: check_def keeps_returns)

lemmas keeps_state_rules =
  keeps_basic keeps_settings_data keeps_check
  keeps_flow_on_world[where g = state] keeps_state_set_settings

lemma keeps_state_load_settings: "keeps (\<lambda>s. state (fst s)) (load_settings ext)"
  unfolding load_settings_def by (intro keeps_state_rules)

lemma keeps_state_attach_logging: "keeps (\<lambda>s. state (fst s)) attach_logging"
  unfolding attach_logging_def
  by (intro keeps_state_rules) (auto split: option.splits intro: keeps_state_rules)

lemma keeps_state_refuse_or_go: "keeps (\<lambda>s. state (fst s)) (refuse_or_go flag prompt i msg)"
  unfolding refuse_or_go_def by (intro keeps_state_rules)

lemma keeps_state_ensure_directory:
  "keeps (\<lambda>s. state (fst s)) (ensure_directory ext i c u r)"
  unfolding ensure_directory_def by (intro keeps_state_rules keeps_state_refuse_or_go)

lemma keeps_state_guard_meta_dir: "keeps (\<lambda>s. state (fst s)) (guard_meta_dir i frc)"
  unfolding guard_meta_dir_def by (intro keeps_state_rules keeps_state_refuse_or_go)

lemma keeps_state_initialize:
  "keeps (\<lambda>s. state (fst s)) (initialize ext i c u r frc v)"
  unfolding initialize_def create_workspace_def
  by (intro keeps_state_rules keeps_state_ensure_directory keeps_state_guard_meta_dir)

lemma keeps_state_append_input: "keeps (\<lambda>s. state (fst s)) (append_input nm)"
  unfolding append_input_def
  by (intro keeps_state_rules) (auto split: val.splits intro: keeps_state_rules)

lemma keeps_state_parse_coredsl: "keeps (\<lambda>s. state (fst s)) (parse_coredsl ext file out v)"
  unfolding parse_coredsl_def by (intro keeps_state_rules)

lemma keeps_state_load_cdsl: "keeps (\<lambda>s. state (fst s)) (load_cdsl ext file v ow)"
  unfolding load_cdsl_def
  by (intro keeps_state_rules keeps_state_append_input keeps_state_parse_coredsl)

lemma keeps_state_build: "keeps (\<lambda>s. state (fst s)) (build ext config v)"
  unfolding build_def by (intro keeps_state_rules)

lemma keeps_state_test: "keeps (\<lambda>s. state (fst s)) (test ext dbg v ig)"
  unfolding test_def by (intro keeps_state_rules)

lemma Seal5Flow_init_state:
  assumes a: "Seal5Flow_init ext dir nm w = (Inr f, w')"
  shows "state f = UNKNOWN"
proof -
  from a obtain p where p: "handle_directory dir = Inr p"
    by (auto simp: Seal5Flow_init_def split: sum.splits)
  let ?s0 = "(\<lparr>directory = p, name = nm, state = UNKNOWN, settings = None\<rparr>, w)"
  let ?body = "and_then check (\<lambda>_. and_then (set_settings None) (\<lambda>_.
                and_then (load_settings ext) (\<lambda>_. attach_logging)))"
  from a p obtain u where b: "?body ?s0 = (Inr u, f, w')"
    by (auto simp: Seal5Flow_init_def split: sum.splits prod.splits)
  have "keeps (\<lambda>s. state (fst s)) ?body"
    by (intro keeps_state_rules keeps_state_load_settings keeps_state_attach_logging)
  from keepsD[OF this b] show ?thesis by simp
qed

lemmas run_defs =
  Seal5Flow_init_def and_then_def returns_def raise_def of_result_def get_state_def
  check_def set_settings_def load_settings_def attach_logging_def on_world_def
  from_yaml_file_def set_log_file_def set_levels_from_def set_log_level_def
  settings_file_def meta_dir_def logs_dir_def log_file_path_def
  is_file_def is_dir_def read_text_def quiet_tools_def world_of_def

section \<open>Initializing over an existing metadata directory\<close>

lemma resolve_snoc:
  "resolve t (p @ [x]) = Some n \<Longrightarrow> \<exists>es. resolve t p = Some (Dir es)"
proof (induction p arbitrary: t)
  case Nil
  then show ?case by (cases t) auto
next
  case (Cons y p)
  then show ?case by (cases t) (auto split: option.splits)
qed

lemma is_dir_parent: "is_dir t (p @ [x]) \<Longrightarrow> is_dir t p"
proof -
  assume "is_dir t (p @ [x])"
  then obtain n where "resolve t (p @ [x]) = Some n"
    by (auto simp: is_dir_def split: option.splits)
  from resolve_snoc[OF this] show ?thesis by (auto simp: is_dir_def)
qed

lemma initialize_refused:
  assumes "is_dir (fs w) (meta_dir f)"
  shows "initialize ext interactive clone clone_url clone_ref False verbose (f, w)
         = (Inl (NameError ''ask_user''), f,
            w\<lparr>records := records w @ [(''INFO'', ''Initializing Seal5'')]\<rparr>)"
proof -
  from assms have "is_dir (fs w) (directory f)"
    by (auto simp: meta_dir_def dest: is_dir_parent)
  with assms show ?thesis
    by (simp add: initialize_def and_then_def on_world_def logger_def ensure_directory_def
          guard_meta_dir_def refuse_or_go_def ask_user_def unbound_def raise_def returns_def
          get_state_def)
qed

lemma keeps_world_on_world:
  assumes "keeps g m"
  shows "keeps (\<lambda>s. g (snd s)) (on_world m)"
  unfolding keeps_def
proof
  fix s :: "flow \<times> world"
  obtain r w where m: "m (snd s) = (r, w)" by (cases "m (snd s)")
  from keepsD[OF assms m] m show "g (snd (snd (on_world m s))) = g (snd s)"
    by (simp add: on_world_def)
qed

lemma keeps_world_set_settings: "keeps (\<lambda>s. g (snd s)) (set_settings d)"
  by (simp add: keeps_def set_settings_def)

lemma keeps_directory_set_settings: "keeps (\<lambda>s. directory (fst s)) (set_settings d)"
  by (simp add: keeps_def set_settings_def)

lemma keeps_disk_logger: "keeps (\<lambda>w. (fs w, calls w)) (logger l msg)"
  by (simp add: keeps_def logger_def)

lemma keeps_disk_set_log_file: "keeps (\<lambda>w. (fs w, calls w)) (set_log_file p)"
  by (simp add: keeps_def set_log_file_def)

lemma keeps_disk_set_log_level: "keeps (\<lambda>w. (fs w, calls w)) (set_log_level a b)"
  by (simp add: keeps_def set_log_level_def)

lemma keeps_disk_from_yaml_file: "keeps (\<lambda>w. (fs w, calls w)) (from_yaml_file ext p)"
  by (auto simp: keeps_def from_yaml_file_def split: sum.splits)

lemma keeps_disk_set_levels_from: "keeps (\<lambda>w. (fs w, calls w)) (set_levels_from data)"
  unfolding set_levels_from_def by (intro keeps_basic keeps_disk_set_log_level)

lemmas keeps_disk_rules =
  keeps_basic keeps_check keeps_world_set_settings
  keeps_world_on_world[OF keeps_disk_logger]
  keeps_world_on_world[OF keeps_disk_set_log_file]
  keeps_world_on_world[OF keeps_disk_from_yaml_file]
  keeps_world_on_world[OF keeps_disk_set_levels_from]

lemma keeps_disk_load_settings:
  "keeps (\<lambda>s. (fs (snd s), calls (snd s))) (load_settings ext)"
  unfolding load_settings_def by (intro keeps_disk_rules)

lemma keeps_disk_attach_logging:
  "keeps (\<lambda>s. (fs (snd s), calls (snd s))) attach_logging"
  unfolding attach_logging_def
  by (intro keeps_disk_rules) (auto split: option.splits intro: keeps_disk_rules)

lemma keeps_directory_load_settings: "keeps (\<lambda>s. directory (fst s)) (load_settings ext)"
  unfolding load_settings_def
  by (intro keeps_basic keeps_flow_on_world[where g = directory] keeps_directory_set_settings)

lemma keeps_directory_attach_logging: "keeps (\<lambda>s. directory (fst s)) attach_logging"
  unfolding attach_logging_def
  by (intro keeps_basic keeps_flow_on_world[where g = directory])
     (auto split: option.splits intro: keeps_basic keeps_flow_on_world[where g = directory])

lemma Seal5Flow_init_reads_only:
  assumes a: "Seal5Flow_init ext dir nm w = (r, w')"
  shows "fs w' = fs w \<and> calls w' = calls w \<and>
         (\<forall>f. r = Inr f \<longrightarrow> handle_directory dir = Inr (directory f))"
proof (cases "handle_directory dir")
  case (Inl e)
  with a show ?thesis by (auto simp: Seal5Flow_init_def)
next
  case (Inr p)
  let ?s0 = "(\<lparr>directory = p, name = nm, state = UNKNOWN, settings = None\<rparr>, w)"
  let ?body = "and_then check (\<lambda>_. and_then (set_settings None) (\<lambda>_.
                and_then (load_settings ext) (\<lambda>_. attach_logging)))"
  obtain r0 f0 w0 where b: "?body ?s0 = (r0, f0, w0)" by (cases "?body ?s0")
  have k1: "keeps (\<lambda>s. (fs (snd s), calls (snd s))) ?body"
    by (intro keeps_disk_rules keeps_disk_load_settings keeps_disk_attach_logging)
  have k2: "keeps (\<lambda>s. directory (fst s)) ?body"
    by (intro keeps_basic keeps_check keeps_directory_set_settings
          keeps_directory_load_settings keeps_directory_attach_logging)
  from keepsD[OF k1 b] have d: "fs w0 = fs w" "calls w0 = calls w" by simp_all
  from keepsD[OF k2 b] have dir: "directory f0 = p" by simp
  from a Inr b have "w' = w0" and "\<forall>f. r = Inr f \<longrightarrow> f = f0"
    by (auto simp: Seal5Flow_init_def split: sum.splits)
  with d dir Inr show ?thesis by auto
qed

lemma handle_existing_aborts:
  assumes "arg_dir args = Some d" and "\<not> arg_force args"
    and "is_dir (fs w) [d, ''.seal5'']"
  shows "\<exists>e w'. handle ext seal5_home args w = (Inl e, w') \<and> fs w' = fs w \<and>
                calls w' = calls w \<and> exit_status (Inl e) = 1"
proof -
  obtain r w2 where c: "Seal5Flow_init ext (DirectoryStr d) (arg_name args) w = (r, w2)"
    by (cases "Seal5Flow_init ext (DirectoryStr d) (arg_name args) w")
  note ro = Seal5Flow_init_reads_only[OF c]
  show ?thesis
  proof (cases r)
    case (Inl e)
    with c ro assms(1) show ?thesis by (simp add: handle_def exit_status_def)
  next
    case (Inr f)
    with ro have dir: "directory f = [d]" by simp
    with assms(3) ro have "is_dir (fs w2) (meta_dir f)" by (simp add: meta_dir_def)
    from initialize_refused[OF this, of ext "\<not> non_interactive args"] assms(1,2) c Inr ro
    show ?thesis by (simp add: handle_def exit_status_def)
  qed
qed

section \<open>What a successful \<^verbatim>\<open>initialize\<close> leaves\<close>

lemma resolve_put: "put t p n = Some t' \<Longrightarrow> resolve t' p = Some n"
proof (induction p arbitrary: t t')
  case Nil
  then show ?case by simp
next
  case (Cons x p)
  then obtain es where t: "t = Dir es" by (cases t) auto
  show ?case
  proof (cases "p = []")
    case True
    with Cons.prems t show ?thesis by (auto simp: map_of_set_item)
  next
    case False
    with Cons.prems t obtain child child' where
      c: "map_of es x = Some child" "put child p n = Some child'" "t' = Dir (set_item es x child')"
      by (auto split: option.splits)
    from Cons.IH[OF c(2)] c(3) show ?thesis by (simp add: map_of_set_item)
  qed
qed

lemma read_after_write: "write_text t p c = Inr t' \<Longrightarrow> read_text t' p = Inr c"
  by (auto simp: write_text_def read_text_def split: option.splits node.splits dest: resolve_put)

lemma and_then_Inr:
  assumes "and_then m k s = (Inr x, s')"
  obtains y s1 where "m s = (Inr y, s1)" and "k y s1 = (Inr x, s')"
  using assms by (auto simp: and_then_def split: prod.splits sum.splits)




lemmas step_defs =
  and_then_def returns_def raise_def of_result_def get_state_def on_world_def set_settings_def
  fs_step_def run_tool_def logger_def set_log_file_def set_log_level_def set_levels_from_def
  unbound_def ask_user_def logging_error_def sys_exit_def
  from_yaml_file_def to_yaml_file_def settings_data_def

lemmas path_defs =
  meta_dir_def settings_file_def deps_dir_def build_dir_def logs_dir_def models_dir_def
  inputs_dir_def log_file_path_def path_name_def str_path_def

lemmas fs_defs =
  is_dir_def is_file_def mkdir_def mkdir_parents_def write_text_def read_text_def utils_copy_def

lemmas example_defs = quiet_tools_def world_of_def ws_flow_def ws_tree_def


section \<open>Building\<close>

text \<open>
  A configuration name that \<^verbatim>\<open>llvm.configs\<close> does not have fails the assertion after one
  record to the logger and before any external process.
\<close>

lemma build_unknown_config:
  assumes "settings f = Some data" and "subscript data ''llvm'' = Inr llvm"
    and "subscript llvm ''configs'' = Inr (VDict configs)" and "map_of configs config = None"
  shows "build ext config verbose (f, w)
         = (Inl (AssertionError (''Invalid llvm config: '' @ config)), f,
            w\<lparr>records := records w @ [(''INFO'', ''Building Seal5 LLVM'')]\<rparr>)"
  using assms by (simp add: build_def step_defs)

section \<open>Loading a model source\<close>





lemma load_cdsl_example_loaded:
  "load_cdsl quiet_tools [''ws'', ''x.core_desc''] False False
     (ws_flow\<lparr>settings := Some (VDict DEFAULT_SETTINGS)\<rparr>,
      world_of (ws_tree [] [(''x.core_desc'', File ''body'')] [(''x.core_desc'', File ''body'')]))
   = (Inl (RuntimeError ''File x.core_desc already loaded!''),
      ws_flow\<lparr>settings := Some (VDict DEFAULT_SETTINGS)\<rparr>,
      world_of (ws_tree [] [(''x.core_desc'', File ''body'')] [(''x.core_desc'', File ''body'')]))"
  by (simp add: load_cdsl_def step_defs path_defs fs_defs example_defs)

lemma load_cdsl_example_no_inputs_dir:
  "load_cdsl quiet_tools [''ws'', ''x.core_desc''] False False
     (ws_flow\<lparr>settings := Some (VDict DEFAULT_SETTINGS)\<rparr>,
      world_of (Dir [(''ws'', Dir [(''x.core_desc'', File ''body'')])]))
   = (Inl (OSError ''FileNotFoundError''),
      ws_flow\<lparr>settings := Some (VDict DEFAULT_SETTINGS)\<rparr>,
      world_of (Dir [(''ws'', Dir [(''x.core_desc'', File ''body'')])]))"
  by (simp add: load_cdsl_def step_defs path_defs fs_defs example_defs)


section \<open>Testing\<close>

lemma test_paths_loop_outputs:
  "test_paths_loop ext base lit_exe ps acc w = (Inr failing, w') \<Longrightarrow>
   \<exists>outs. list_all2 (\<lambda>p out. \<exists>nm t t'. p = VStr nm \<and>
                          run ext (ExecGetout lit_exe (base @ [nm])) t = Inr (out, t')) ps outs \<and>
          failing = acc @ concat (map findall_failing outs)"
proof (induction ps arbitrary: acc w)
  case Nil
  then show ?case by (simp add: returns_def)
next
  case (Cons p ps)
  from Cons.prems obtain nm where p: "p = VStr nm"
    by (cases p) (auto simp: raise_def)
  from Cons.prems p obtain out w1 where
    r: "run_tool ext (ExecGetout lit_exe (base @ [nm])) w = (Inr out, w1)" and
    rest: "test_paths_loop ext base lit_exe ps (acc @ findall_failing out) w1 = (Inr failing, w')"
    by (auto elim!: and_then_Inr)
  from r obtain t' where "run ext (ExecGetout lit_exe (base @ [nm])) (fs w) = Inr (out, t')"
    by (auto simp: run_tool_def split: sum.splits prod.splits)
  moreover from Cons.IH[OF rest] obtain outs where
    "list_all2 (\<lambda>p out. \<exists>nm t t'. p = VStr nm \<and>
                          run ext (ExecGetout lit_exe (base @ [nm])) t = Inr (out, t')) ps outs"
    "failing = (acc @ findall_failing out) @ concat (map findall_failing outs)" by blast
  ultimately show ?case using p by (intro exI[of _ "out # outs"]) auto
qed

lemma test_llvm_outputs:
  assumes "test_llvm ext base bdir test_paths verbose w = (Inr failing, w')"
  shows "\<exists>ps outs. py_iter test_paths = Inr ps \<and>
           list_all2 (\<lambda>p out. \<exists>nm t t'. p = VStr nm \<and>
              run ext (ExecGetout (bdir @ [''bin'', ''llvm-lit'']) (base @ [nm])) t = Inr (out, t'))
             ps outs \<and>
           failing = concat (map findall_failing outs)"
proof -
  from assms obtain ps where ps: "py_iter test_paths = Inr ps" and
    l: "test_paths_loop ext base (bdir @ [''bin'', ''llvm-lit'']) ps [] w = (Inr failing, w')"
    by (auto simp: test_llvm_def of_result_def elim!: and_then_Inr)
  from test_paths_loop_outputs[OF l] ps show ?thesis by auto
qed

lemma test_failing:
  assumes "settings f = Some data" and "subscript data ''test'' = Inr ts"
    and "subscript ts ''paths'' = Inr tp"
    and "test_llvm ext (directory f @ [''llvm'', ''test''])
           (build_dir f @ [if debug then ''debug'' else ''release'']) tp verbose
           (w\<lparr>records := records w @ [(''INFO'', ''Testing Seal5 LLVM'')]\<rparr>) = (Inr failing, w2)"
    and "failing \<noteq> []"
  shows "test ext debug verbose False (f, w)
         = (Inl (RuntimeError ''Tests failed!''), f,
            w2\<lparr>records := records w2 @
               [(''ERROR'', str_nat (length failing) @ '' tests failed: '' @ join '', '' failing)]\<rparr>)"
    and "test ext debug verbose True (f, w)
         = (Inr (), f,
            w2\<lparr>records := records w2 @
               [(''ERROR'', str_nat (length failing) @ '' tests failed: '' @ join '', '' failing),
                (''INFO'', ''Completed test of Seal5 LLVM'')]\<rparr>)"
  using assms by (simp_all add: test_def step_defs)

lemma test_llvm_example:
  "test_llvm lit_tools [''ws'', ''llvm'', ''test''] [''ws'', ''.seal5'', ''build'', ''release'']
     (VList [VStr ''MC/RISCV'', VStr ''CodeGen/RISCV'']) False
     ((world_of (ws_tree [] [] []))\<lparr>records := [(''INFO'', ''Testing Seal5 LLVM'')]\<rparr>)
   = (Inr [''MC/RISCV/a.s'', ''MC/RISCV/b.s''],
      (world_of (ws_tree [] [] []))
        \<lparr>calls := [ExecGetout [''ws'', ''.seal5'', ''build'', ''release'', ''bin'', ''llvm-lit'']
                              [''ws'', ''llvm'', ''test'', ''MC/RISCV''],
                   ExecGetout [''ws'', ''.seal5'', ''build'', ''release'', ''bin'', ''llvm-lit'']
                              [''ws'', ''llvm'', ''test'', ''CodeGen/RISCV'']],
         records := [(''INFO'', ''Testing Seal5 LLVM'')]\<rparr>)"
  by (simp add: test_llvm_def findall_failing_def step_defs example_defs lit_tools_def)

lemma str_nat_2: "str_nat (Suc (Suc 0)) = ''2''"
  by (simp add: str_nat.simps)

section \<open>The settings file\<close>

text \<open>
  Writing the settings and reading them back gives what the YAML library loads from its
  own dump: the file keeps the text as it is. Whether that is the tree that was dumped
  is a property of the library, which is outside the sources.
\<close>

lemma from_yaml_file_after_to_yaml_file:
  assumes "to_yaml_file ext data p w = (Inr (), w')"
  shows "from_yaml_file ext p w' = (yaml_safe_load ext (yaml_dump ext data), w')"
proof -
  from assms obtain t where
    wr: "write_text (fs w) p (yaml_dump ext data) = Inr t" and w': "w' = w\<lparr>fs := t\<rparr>"
    by (auto simp: to_yaml_file_def fs_step_def split: sum.splits)
  from read_after_write[OF wr] w' show ?thesis by (simp add: from_yaml_file_def)
qed

section \<open>Merging with a conflict\<close>





section \<open>Merging trees that share no leaf\<close>







text \<open>
  Claim C3, as amended. The constructor sets the state to \<^verbatim>\<open>UNKNOWN\<close> and \<^verbatim>\<open>check\<close> inspects
  nothing: whatever the directories on disk, the manager that the constructor returns
  is in state \<^verbatim>\<open>UNKNOWN\<close>. Nothing resolves or checks the state afterwards:
  \<^verbatim>\<open>check\<close>, \<^verbatim>\<open>initialize\<close>, \<^verbatim>\<open>load_cdsl\<close>, \<^verbatim>\<open>build\<close> and \<^verbatim>\<open>test\<close> leave the state field as it is.
\<close>

theorem state_stays_unknown:
  assumes "Seal5Flow_init ext dir nm w = (Inr f, w')"
  shows "state f = UNKNOWN \<and>
         keeps (\<lambda>s. state (fst s)) check \<and>
         keeps (\<lambda>s. state (fst s)) (initialize ext interactive clone clone_url clone_ref force verbose) \<and>
         keeps (\<lambda>s. state (fst s)) (load_cdsl ext file verbose overwrite) \<and>
         keeps (\<lambda>s. state (fst s)) (build ext config verbose) \<and>
         keeps (\<lambda>s. state (fst s)) (test ext debug verbose ignore_error)"
  using Seal5Flow_init_state[OF assms] keeps_check keeps_state_initialize keeps_state_load_cdsl
    keeps_state_build keeps_state_test
  by blast

text \<open>
  On a root directory without metadata directory the state after construction is not
  \<^verbatim>\<open>UNINITIALIZED\<close>, and on a workspace with metadata directory and settings file it is
  not \<^verbatim>\<open>INITIALIZED\<close>.
\<close>

theorem state_unresolved_counterexample:
  "is_dir (Dir [(''ws'', Dir [])]) [''ws''] \<and>
   \<not> is_dir (Dir [(''ws'', Dir [])]) [''ws'', ''.seal5''] \<and>
   Seal5Flow_init quiet_tools (DirectoryStr ''ws'') ''default'' (world_of (Dir [(''ws'', Dir [])]))
     = (Inr \<lparr>directory = [''ws''], name = ''default'', state = UNKNOWN, settings = None\<rparr>,
        world_of (Dir [(''ws'', Dir [])])) \<and>
   UNKNOWN \<noteq> UNINITIALIZED \<and>
   is_dir (Dir [(''ws'', Dir [(''.seal5'', Dir [(''settings.yml'', File [])])])]) [''ws'', ''.seal5''] \<and>
   is_file (Dir [(''ws'', Dir [(''.seal5'', Dir [(''settings.yml'', File [])])])])
     [''ws'', ''.seal5'', ''settings.yml''] \<and>
   Seal5Flow_init quiet_tools (DirectoryStr ''ws'') ''default''
       (world_of (Dir [(''ws'', Dir [(''.seal5'', Dir [(''settings.yml'', File [])])])]))
     = (Inr \<lparr>directory = [''ws''], name = ''default'', state = UNKNOWN,
              settings = Some (VDict [])\<rparr>,
        world_of (Dir [(''ws'', Dir [(''.seal5'', Dir [(''settings.yml'', File [])])])])) \<and>
   UNKNOWN \<noteq> INITIALIZED"
  by (simp add: run_defs)

theorem state_stays_unknown_witness:
  "Seal5Flow_init quiet_tools (DirectoryStr ''ws'') ''default'' (world_of (Dir [(''ws'', Dir [])]))
     = (Inr \<lparr>directory = [''ws''], name = ''default'', state = UNKNOWN, settings = None\<rparr>,
        world_of (Dir [(''ws'', Dir [])])) \<and>
   state \<lparr>directory = [''ws''], name = ''default'', state = UNKNOWN, settings = None\<rparr> = UNKNOWN"
proof -
  have h: "Seal5Flow_init quiet_tools (DirectoryStr ''ws'') ''default'' (world_of (Dir [(''ws'', Dir [])]))
     = (Inr \<lparr>directory = [''ws''], name = ''default'', state = UNKNOWN, settings = None\<rparr>,
        world_of (Dir [(''ws'', Dir [])]))"
    by (simp add: run_defs)
  from state_stays_unknown[OF h] h show ?thesis by blast
qed






text \<open>
  Claim C2 fails on the code. \<^verbatim>\<open>build\<close> reads the option mapping of the configuration and
  passes it to \<^verbatim>\<open>build_llvm\<close> as third positional argument, which is the parameter
  \<^verbatim>\<open>debug\<close>; \<^verbatim>\<open>cmake_options\<close> keeps its default, the empty mapping. On the default
  settings and the configuration \<^verbatim>\<open>release\<close> the configure step runs without any flag,
  where \<^verbatim>\<open>get_cmake_args\<close> on the options of the configuration gives six.
\<close>

theorem build_drops_cmake_options:
  "fst (build quiet_tools ''release'' False
          (ws_flow\<lparr>settings := Some (VDict DEFAULT_SETTINGS)\<rparr>, world_of (ws_tree [] [] [])))
     = Inr () \<and>
   calls (snd (snd (build quiet_tools ''release'' False
          (ws_flow\<lparr>settings := Some (VDict DEFAULT_SETTINGS)\<rparr>, world_of (ws_tree [] [] [])))))
     = [Cmake [''ws'', ''llvm''] [] False [''ws'', ''.seal5'', ''build'', ''release''],
        Make [''ws'', ''.seal5'', ''build'', ''release'']] \<and>
   lookup_path (VDict DEFAULT_SETTINGS) [''llvm'', ''configs'', ''release'', ''options'']
     = Some (VDict [(''CMAKE_BUILD_TYPE'', VStr ''Release''),
                    (''LLVM_BUILD_TOOLS'', VBool True),
                    (''LLVM_ENABLE_ASSERTIONS'', VBool False),
                    (''LLVM_OPTIMIZED_TABLEGEN'', VBool True),
                    (''LLVM_ENABLE_PROJECTS'', VList [VStr ''clang'', VStr ''lld'']),
                    (''LLVM_TARGETS_TO_BUILD'', VList [VStr ''X86'', VStr ''RISCV''])]) \<and>
   get_cmake_args [(''CMAKE_BUILD_TYPE'', VStr ''Release''),
                   (''LLVM_BUILD_TOOLS'', VBool True),
                   (''LLVM_ENABLE_ASSERTIONS'', VBool False),
                   (''LLVM_OPTIMIZED_TABLEGEN'', VBool True),
                   (''LLVM_ENABLE_PROJECTS'', VList [VStr ''clang'', VStr ''lld'']),
                   (''LLVM_TARGETS_TO_BUILD'', VList [VStr ''X86'', VStr ''RISCV''])]
     = Inr [''-DCMAKE_BUILD_TYPE=Release'', ''-DLLVM_BUILD_TOOLS=ON'',
            ''-DLLVM_ENABLE_ASSERTIONS=OFF'', ''-DLLVM_OPTIMIZED_TABLEGEN=ON'',
            ''-DLLVM_ENABLE_PROJECTS=clang;lld'', ''-DLLVM_TARGETS_TO_BUILD=X86;RISCV'']"
  by (simp add: build_def build_llvm_def step_defs path_defs fs_defs example_defs
        DEFAULT_SETTINGS_def release_options_def)



text \<open>
  Claim C8, as amended. When the runner outputs hold failing test markers, \<^verbatim>\<open>test\<close> sends
  one record at level \<^verbatim>\<open>ERROR\<close> to the logger, with the number of failing tests and their
  identifiers: the matches of the pattern in each runner output, the outputs taken in
  the order of the test paths. Then, unless \<^verbatim>\<open>ignore_error\<close> is set, it raises
  \<^verbatim>\<open>RuntimeError\<close> with the fixed message \<^verbatim>\<open>Tests failed!\<close>; with \<^verbatim>\<open>ignore_error\<close> it
  logs its completion and returns.
\<close>

theorem test_logs_failures_then_raises:
  assumes "settings f = Some data" and "subscript data ''test'' = Inr ts"
    and "subscript ts ''paths'' = Inr tp"
    and "test_llvm ext (directory f @ [''llvm'', ''test''])
           (build_dir f @ [if debug then ''debug'' else ''release'']) tp verbose
           (w\<lparr>records := records w @ [(''INFO'', ''Testing Seal5 LLVM'')]\<rparr>) = (Inr failing, w2)"
    and "failing \<noteq> []"
  shows "test ext debug verbose False (f, w)
         = (Inl (RuntimeError ''Tests failed!''), f,
            w2\<lparr>records := records w2 @
               [(''ERROR'', str_nat (length failing) @ '' tests failed: '' @ join '', '' failing)]\<rparr>) \<and>
         test ext debug verbose True (f, w)
         = (Inr (), f,
            w2\<lparr>records := records w2 @
               [(''ERROR'', str_nat (length failing) @ '' tests failed: '' @ join '', '' failing),
                (''INFO'', ''Completed test of Seal5 LLVM'')]\<rparr>) \<and>
         (\<exists>ps outs. py_iter tp = Inr ps \<and>
            list_all2 (\<lambda>p out. \<exists>nm t t'. p = VStr nm \<and>
               run ext (ExecGetout (build_dir f @ [if debug then ''debug'' else ''release'']
                                    @ [''bin'', ''llvm-lit''])
                                   (directory f @ [''llvm'', ''test''] @ [nm])) t = Inr (out, t'))
              ps outs \<and>
            failing = concat (map findall_failing outs))"
  using test_failing[OF assms] test_llvm_outputs[OF assms(4)] by simp

theorem test_logs_failures_then_raises_witness:
  "test lit_tools False False False
     (ws_flow\<lparr>settings := Some (VDict DEFAULT_SETTINGS)\<rparr>, world_of (ws_tree [] [] []))
   = (Inl (RuntimeError ''Tests failed!''),
      ws_flow\<lparr>settings := Some (VDict DEFAULT_SETTINGS)\<rparr>,
      (world_of (ws_tree [] [] []))
        \<lparr>calls := [ExecGetout [''ws'', ''.seal5'', ''build'', ''release'', ''bin'', ''llvm-lit'']
                              [''ws'', ''llvm'', ''test'', ''MC/RISCV''],
                   ExecGetout [''ws'', ''.seal5'', ''build'', ''release'', ''bin'', ''llvm-lit'']
                              [''ws'', ''llvm'', ''test'', ''CodeGen/RISCV'']],
         records := [(''INFO'', ''Testing Seal5 LLVM''),
                     (''ERROR'', ''2 tests failed: MC/RISCV/a.s, MC/RISCV/b.s'')]\<rparr>) \<and>
   test lit_tools False False True
     (ws_flow\<lparr>settings := Some (VDict DEFAULT_SETTINGS)\<rparr>, world_of (ws_tree [] [] []))
   = (Inr (),
      ws_flow\<lparr>settings := Some (VDict DEFAULT_SETTINGS)\<rparr>,
      (world_of (ws_tree [] [] []))
        \<lparr>calls := [ExecGetout [''ws'', ''.seal5'', ''build'', ''release'', ''bin'', ''llvm-lit'']
                              [''ws'', ''llvm'', ''test'', ''MC/RISCV''],
                   ExecGetout [''ws'', ''.seal5'', ''build'', ''release'', ''bin'', ''llvm-lit'']
                              [''ws'', ''llvm'', ''test'', ''CodeGen/RISCV'']],
         records := [(''INFO'', ''Testing Seal5 LLVM''),
                     (''ERROR'', ''2 tests failed: MC/RISCV/a.s, MC/RISCV/b.s''),
                     (''INFO'', ''Completed test of Seal5 LLVM'')]\<rparr>)"
proof -
  let ?F = "ws_flow\<lparr>settings := Some (VDict DEFAULT_SETTINGS)\<rparr>"
  let ?W = "world_of (ws_tree [] [] [])"
  have h1: "settings ?F = Some (VDict DEFAULT_SETTINGS)" by simp
  have h2: "subscript (VDict DEFAULT_SETTINGS) ''test''
            = Inr (VDict [(''paths'', VList [VStr ''MC/RISCV'', VStr ''CodeGen/RISCV''])])"
    by (simp add: DEFAULT_SETTINGS_def)
  have h3: "subscript (VDict [(''paths'', VList [VStr ''MC/RISCV'', VStr ''CodeGen/RISCV''])]) ''paths''
            = Inr (VList [VStr ''MC/RISCV'', VStr ''CodeGen/RISCV''])" by simp
  have h4: "test_llvm lit_tools (directory ?F @ [''llvm'', ''test''])
           (build_dir ?F @ [if False then ''debug'' else ''release''])
           (VList [VStr ''MC/RISCV'', VStr ''CodeGen/RISCV'']) False
           (?W\<lparr>records := records ?W @ [(''INFO'', ''Testing Seal5 LLVM'')]\<rparr>)
         = (Inr [''MC/RISCV/a.s'', ''MC/RISCV/b.s''],
            ?W\<lparr>calls := [ExecGetout [''ws'', ''.seal5'', ''build'', ''release'', ''bin'', ''llvm-lit'']
                              [''ws'', ''llvm'', ''test'', ''MC/RISCV''],
                   ExecGetout [''ws'', ''.seal5'', ''build'', ''release'', ''bin'', ''llvm-lit'']
                              [''ws'', ''llvm'', ''test'', ''CodeGen/RISCV'']],
               records := [(''INFO'', ''Testing Seal5 LLVM'')]\<rparr>)"
    using test_llvm_example by (simp add: path_defs ws_flow_def world_of_def)
  have h5: "[''MC/RISCV/a.s'', ''MC/RISCV/b.s''] \<noteq> []" by simp
  from test_logs_failures_then_raises[OF h1 h2 h3 h4 h5]
  show ?thesis by (simp add: str_nat_2 world_of_def)
qed

text \<open>
  The exception names no test. The runner reports two failing tests, and neither
  identifier occurs in the message of the exception.
\<close>

theorem test_error_names_no_test_counterexample:
  "fst (test lit_tools False False False
          (ws_flow\<lparr>settings := Some (VDict DEFAULT_SETTINGS)\<rparr>, world_of (ws_tree [] [] [])))
     = Inl (RuntimeError ''Tests failed!'') \<and>
   findall_failing (''PASS: LLVM :: ok.ll (1 of 3)'' @ [CHR 0x0A]
                    @ ''FAIL: LLVM :: MC/RISCV/a.s (2 of 3)'' @ [CHR 0x0A]
                    @ ''FAIL: LLVM :: MC/RISCV/b.s (3 of 3)'' @ [CHR 0x0A])
     = [''MC/RISCV/a.s'', ''MC/RISCV/b.s''] \<and>
   \<not> sublist ''MC/RISCV/a.s'' ''Tests failed!'' \<and>
   \<not> sublist ''MC/RISCV/b.s'' ''Tests failed!''"
  by (simp add: test_def test_llvm_def findall_failing_def step_defs path_defs example_defs
        lit_tools_def DEFAULT_SETTINGS_def sublist_Cons_right)

end
